theory Spec2Isabelle
  imports Main
begin

section \<open>Values, objects and the store\<close>

text \<open>
  The module \<^verbatim>\<open>twisted/spread/flavors.py\<close> works on Python instances: it reads and
  rebinds \<^verbatim>\<open>__class__\<close> and \<^verbatim>\<open>__dict__\<close>, and several instances may share one
  attribute dictionary. The store therefore keeps instances and attribute dictionaries
  apart: an instance is a class together with a reference to a dictionary.
\<close>

type_synonym oid = nat
type_synonym did = nat
type_synonym bid = nat

datatype pyval =
    PNone
  | PInt int
  | PStr string
  | PList "pyval list"
  | PTuple "pyval list"
  | PObj oid
  | PBroker bid
  | PDict did

datatype error =
    AttributeError
  | TypeError
  | IndexError
  | AssertionError
  | CannotViewWithoutContext
  | UnknownLocalId
  | DuplicateCacheState

datatype flavor =
    Dummy
  | Referenceable
  | Root
  | ViewPoint
  | Viewable
  | Copyable
  | Cacheable
  | RemoteCopy
  | RemoteCache

record pyclass =
  cbase :: flavor
  cname :: string

record pyobj =
  ocls :: pyclass
  odict :: did

text \<open>
  Modelled from the spec: the connection handle (the broker) and its cache table, whose
  code is not part of the module. Section 4.3 gives it an outgoing cache (object identity
  to LUID, with reference counts), an incoming cache (LUID to local proxy), a separate
  space of reference ids, and a release path towards the origin; Section 3 says that
  LUIDs are assigned monotonically. \<open>released\<close> lists the LUIDs the release path was
  invoked with, oldest first.
\<close>

record broker =
  outgoing :: "pyval \<rightharpoonup> int"
  outgoingRefs :: "int \<rightharpoonup> nat"
  lastLUID :: int
  incoming :: "pyval \<rightharpoonup> oid"
  references :: "pyval \<rightharpoonup> int"
  lastRefId :: int
  serializingPerspective :: pyval
  released :: "pyval list"

record world =
  objs :: "oid \<Rightarrow> pyobj"
  dicts :: "did \<Rightarrow> (string \<rightharpoonup> pyval)"
  next_oid :: oid
  next_did :: did
  brokers :: "bid \<Rightarrow> broker"

type_synonym 'a result = "(error + 'a) \<times> world"

text \<open>\<^verbatim>\<open>id(x)\<close>: distinct live instances have distinct ids, and \<^verbatim>\<open>None\<close> is an
  instance of its own. The identity of plain data is not modelled.\<close>

fun py_id :: "pyval \<Rightarrow> int" where
  "py_id PNone = 0"
| "py_id (PObj n) = int n + 1"
| "py_id _ = - 1"

fun is_ref :: "pyval \<Rightarrow> bool" where
  "is_ref PNone = True"
| "is_ref (PObj n) = True"
| "is_ref _ = False"

text \<open>Attributes defined at class level in the module: \<^verbatim>\<open>Referenceable.perspective = None\<close>,
  \<^verbatim>\<open>RemoteCache.broker = None\<close> and \<^verbatim>\<open>RemoteCache.luid = None\<close>.\<close>

definition class_attr :: "flavor \<Rightarrow> string \<Rightarrow> pyval option" where
  "class_attr f name =
     (if f \<in> {Referenceable, Root, ViewPoint} \<and> name = ''perspective'' then Some PNone
      else if f = RemoteCache \<and> (name = ''broker'' \<or> name = ''luid'') then Some PNone
      else None)"

text \<open>\<^verbatim>\<open>self.name\<close>: the instance dictionary first, then the class.\<close>

definition getattr :: "world \<Rightarrow> oid \<Rightarrow> string \<Rightarrow> error + pyval" where
  "getattr w self name =
     (case dicts w (odict (objs w self)) name of
        Some v \<Rightarrow> Inr v
      | None \<Rightarrow>
          (case class_attr (cbase (ocls (objs w self))) name of
             Some v \<Rightarrow> Inr v
           | None \<Rightarrow> Inl AttributeError))"

text \<open>\<^verbatim>\<open>self.name = v\<close> writes into the dictionary the instance refers to.\<close>

definition setattr :: "oid \<Rightarrow> string \<Rightarrow> pyval \<Rightarrow> world \<Rightarrow> world" where
  "setattr self name v w =
     w\<lparr>dicts := (dicts w)(odict (objs w self) := (dicts w (odict (objs w self)))(name \<mapsto> v))\<rparr>"

definition set_class :: "oid \<Rightarrow> pyclass \<Rightarrow> world \<Rightarrow> world" where
  "set_class self c w = w\<lparr>objs := (objs w)(self := (objs w self)\<lparr>ocls := c\<rparr>)\<rparr>"

definition set_dict :: "oid \<Rightarrow> did \<Rightarrow> world \<Rightarrow> world" where
  "set_dict self d w = w\<lparr>objs := (objs w)(self := (objs w self)\<lparr>odict := d\<rparr>)\<rparr>"

text \<open>Creating an instance: a new identity with a new, empty dictionary.\<close>

definition new_instance :: "pyclass \<Rightarrow> world \<Rightarrow> oid \<times> world" where
  "new_instance c w =
     (next_oid w,
      w\<lparr>objs := (objs w)(next_oid w := \<lparr>ocls = c, odict = next_did w\<rparr>),
        dicts := (dicts w)(next_did w := Map.empty),
        next_oid := Suc (next_oid w),
        next_did := Suc (next_did w)\<rparr>)"

definition Dummy_class :: pyclass where
  "Dummy_class = \<lparr>cbase = Dummy, cname = ''twisted.spread.jelly._Dummy''\<rparr>"

definition ViewPoint_class :: pyclass where
  "ViewPoint_class = \<lparr>cbase = ViewPoint, cname = ''twisted.spread.flavors.ViewPoint''\<rparr>"

definition py_index :: "'a list \<Rightarrow> nat \<Rightarrow> error + 'a" where
  "py_index xs i = (if i < length xs then Inr (xs ! i) else Inl IndexError)"

section \<open>Object identity: Serializable and ViewPoint\<close>

definition Serializable_processUniqueID :: "oid \<Rightarrow> pyval" where
  "Serializable_processUniqueID self = PInt (py_id (PObj self))"

definition ViewPoint_init :: "pyval \<Rightarrow> pyval \<Rightarrow> world \<Rightarrow> oid \<times> world" where
  "ViewPoint_init perspective object w =
     (let (self, w1) = new_instance ViewPoint_class w;
          w2 = setattr self ''perspective'' perspective w1;
          w3 = setattr self ''object'' object w2
      in (self, w3))"

definition ViewPoint_processUniqueID :: "oid \<Rightarrow> world \<Rightarrow> error + pyval" where
  "ViewPoint_processUniqueID self w =
     (case getattr w self ''perspective'' of
        Inl e \<Rightarrow> Inl e
      | Inr p \<Rightarrow>
          (case getattr w self ''object'' of
             Inl e \<Rightarrow> Inl e
           | Inr ob \<Rightarrow> Inr (PTuple [PInt (py_id p), PInt (py_id ob)])))"

text \<open>The method a connection reaches through \<^verbatim>\<open>object.processUniqueID()\<close>:
  \<^verbatim>\<open>ViewPoint\<close> overrides it, every other class of the module inherits
  \<^verbatim>\<open>Serializable\<close>'s.\<close>

definition processUniqueID :: "oid \<Rightarrow> world \<Rightarrow> error + pyval" where
  "processUniqueID self w =
     (if cbase (ocls (objs w self)) = ViewPoint then ViewPoint_processUniqueID self w
      else Inr (Serializable_processUniqueID self))"

section \<open>The connection's cache table\<close>

text \<open>Modelled from the spec: a connection that has cached nothing yet and carries no
  access context.\<close>

definition empty_broker :: broker where
  "empty_broker =
     \<lparr>outgoing = Map.empty, outgoingRefs = Map.empty, lastLUID = 0,
      incoming = Map.empty, references = Map.empty, lastRefId = 0,
      serializingPerspective = PNone, released = []\<rparr>"

text \<open>Modelled from the spec: \<^verbatim>\<open>lookupOutgoing(object) -> Option<LUID>\<close>, the broker's
  \<^verbatim>\<open>cachedRemotelyAs(instance, incref)\<close>, keyed on the object's identity; with
  \<open>incref\<close> a hit counts one more remote reference.\<close>

definition cachedRemotelyAs :: "broker \<Rightarrow> pyval \<Rightarrow> bool \<Rightarrow> int option \<times> broker" where
  "cachedRemotelyAs b key incref =
     (case outgoing b key of
        None \<Rightarrow> (None, b)
      | Some luid \<Rightarrow>
          (Some luid,
           if incref
           then b\<lparr>outgoingRefs := (outgoingRefs b)
                  (luid \<mapsto> Suc (case outgoingRefs b luid of None \<Rightarrow> 0 | Some n \<Rightarrow> n))\<rparr>
           else b))"

text \<open>Modelled from the spec: \<^verbatim>\<open>registerOutgoing(object) -> LUID\<close>, the broker's
  \<^verbatim>\<open>cacheRemotely(instance)\<close>: idempotent per object identity, otherwise the next LUID
  of the connection's monotonic counter.\<close>

definition cacheRemotely :: "broker \<Rightarrow> pyval \<Rightarrow> int \<times> broker" where
  "cacheRemotely b key =
     (case outgoing b key of
        Some luid \<Rightarrow> (luid, b)
      | None \<Rightarrow>
          (let luid = lastLUID b + 1
           in (luid,
               b\<lparr>outgoing := (outgoing b)(key \<mapsto> luid),
                 outgoingRefs := (outgoingRefs b)(luid \<mapsto> 1),
                 lastLUID := luid\<rparr>)))"

text \<open>Modelled from the spec: \<^verbatim>\<open>registerIncoming(LUID, proxy)\<close>, the broker's
  \<^verbatim>\<open>cacheLocally(luid, instance)\<close>: fails with DuplicateCacheState if the LUID is
  already present.\<close>

definition cacheLocally :: "broker \<Rightarrow> pyval \<Rightarrow> oid \<Rightarrow> error + broker" where
  "cacheLocally b luid inst =
     (case incoming b luid of
        Some other \<Rightarrow> Inl DuplicateCacheState
      | None \<Rightarrow> Inr (b\<lparr>incoming := (incoming b)(luid \<mapsto> inst)\<rparr>))"

text \<open>Modelled from the spec: \<^verbatim>\<open>lookupIncoming(LUID) -> Option<proxy>\<close>, the broker's
  \<^verbatim>\<open>cachedLocallyAs(luid)\<close>.\<close>

definition cachedLocallyAs :: "broker \<Rightarrow> pyval \<Rightarrow> oid option" where
  "cachedLocallyAs b luid = incoming b luid"

text \<open>Modelled from the spec: the connection's release path, the broker's
  \<^verbatim>\<open>decCacheRef(luid)\<close>: one notification towards the origin per invocation.\<close>

definition decCacheRef :: "broker \<Rightarrow> pyval \<Rightarrow> broker" where
  "decCacheRef b luid = b\<lparr>released := released b @ [luid]\<rparr>"

text \<open>Modelled from the spec: \<^verbatim>\<open>registerReference(object) -> RefId\<close>, an id space of
  its own, keyed on the object's \<^verbatim>\<open>processUniqueID()\<close>.\<close>

definition registerReference :: "broker \<Rightarrow> pyval \<Rightarrow> int \<times> broker" where
  "registerReference b key =
     (case references b key of
        Some rid \<Rightarrow> (rid, b)
      | None \<Rightarrow>
          (let rid = lastRefId b + 1
           in (rid, b\<lparr>references := (references b)(key \<mapsto> rid), lastRefId := rid\<rparr>)))"

definition upd_broker :: "bid \<Rightarrow> broker \<Rightarrow> world \<Rightarrow> world" where
  "upd_broker c b w = w\<lparr>brokers := (brokers w)(c := b)\<rparr>"

section \<open>The serializer's side of the interface\<close>

text \<open>
  The serializer (jelly) is outside the module. A jellier carries the connection
  (\<^verbatim>\<open>jellier.invoker\<close>, possibly \<^verbatim>\<open>None\<close>) and its own \<^verbatim>\<open>jelly\<close> method, which
  may fail and may reach the connection; an unjellier likewise. They are parameters here.
  \<^verbatim>\<open>getInstanceState(inst, jellier)\<close> and \<^verbatim>\<open>setInstanceState(inst, unjellier, jellyList)\<close>
  are the serializer's plain-instance routines, used when there is no connection: the
  first reads the instances and dictionaries and nothing else.
\<close>

record jellier =
  invoker :: "bid option"
  jelly :: "pyval \<Rightarrow> world \<Rightarrow> pyval result"

record unjellier =
  unjellier_invoker :: "bid option"
  unjelly :: "pyval \<Rightarrow> world \<Rightarrow> pyval result"

type_synonym getInstanceState_fn =
  "(oid \<Rightarrow> pyobj) \<Rightarrow> (did \<Rightarrow> (string \<rightharpoonup> pyval)) \<Rightarrow> oid \<Rightarrow> error + pyval"

type_synonym setInstanceState_fn = "oid \<Rightarrow> pyval list \<Rightarrow> world \<Rightarrow> oid result"

text \<open>Modelled from the spec: \<^verbatim>\<open>encodeTagged(tag, ...values) -> WireValue\<close>, which
  the module reaches as \<^verbatim>\<open>jellier.prepare(obj)\<close>, handing out an empty list to extend,
  and \<^verbatim>\<open>jellier.preserve(obj, l)\<close>, returning the list as the wire value.\<close>

definition jellier_prepare :: "oid \<Rightarrow> pyval list" where
  "jellier_prepare self = []"

definition jellier_preserve :: "oid \<Rightarrow> pyval list \<Rightarrow> pyval" where
  "jellier_preserve self l = PList l"

definition cached_atom :: string where
  "cached_atom = ''cached''"

section \<open>The flavors\<close>

subsection \<open>Referenceable and Viewable\<close>

definition Referenceable_jellyFor :: "oid \<Rightarrow> jellier \<Rightarrow> world \<Rightarrow> pyval result" where
  "Referenceable_jellyFor self j w =
     (case invoker j of
        None \<Rightarrow> (Inl AttributeError, w)
      | Some c \<Rightarrow>
          (case processUniqueID self w of
             Inl e \<Rightarrow> (Inl e, w)
           | Inr key \<Rightarrow>
               (let (rid, b) = registerReference (brokers w c) key
                in (Inr (PTuple [PStr ''remote'', PInt rid]), upd_broker c b w))))"

definition Viewable_jellyFor :: "oid \<Rightarrow> jellier \<Rightarrow> world \<Rightarrow> pyval result" where
  "Viewable_jellyFor self j w =
     (case invoker j of
        None \<Rightarrow> (Inl AttributeError, w)
      | Some c \<Rightarrow>
          (let (vp, w1) = ViewPoint_init (serializingPerspective (brokers w c)) (PObj self) w
           in Referenceable_jellyFor vp j w1))"

subsection \<open>Copyable and Cacheable\<close>

definition getStateToCopy :: "oid \<Rightarrow> world \<Rightarrow> pyval" where
  "getStateToCopy self w = PDict (odict (objs w self))"

definition getStateToCopyFor :: "oid \<Rightarrow> pyval \<Rightarrow> world \<Rightarrow> pyval" where
  "getStateToCopyFor self perspective w = getStateToCopy self w"

definition getTypeToCopy :: "oid \<Rightarrow> world \<Rightarrow> pyval" where
  "getTypeToCopy self w = PStr (cname (ocls (objs w self)))"

definition getTypeToCopyFor :: "oid \<Rightarrow> pyval \<Rightarrow> world \<Rightarrow> pyval" where
  "getTypeToCopyFor self perspective w = getTypeToCopy self w"

definition Copyable_jellyFor ::
  "getInstanceState_fn \<Rightarrow> oid \<Rightarrow> jellier \<Rightarrow> world \<Rightarrow> pyval result" where
  "Copyable_jellyFor getInstanceState self j w =
     (case invoker j of
        None \<Rightarrow> (getInstanceState (objs w) (dicts w) self, w)
      | Some c \<Rightarrow>
          (let p = serializingPerspective (brokers w c);
               ty = getTypeToCopyFor self p w
           in case jelly j (getStateToCopyFor self p w) w of
                (Inl e, w1) \<Rightarrow> (Inl e, w1)
              | (Inr jstate, w1) \<Rightarrow> (Inr (PTuple [ty, jstate]), w1)))"

record observer =
  ob_broker :: bid
  ob_cached :: oid
  ob_perspective :: pyval

definition RemoteCacheObserver_init :: "bid \<Rightarrow> oid \<Rightarrow> pyval \<Rightarrow> observer" where
  "RemoteCacheObserver_init b cached perspective =
     \<lparr>ob_broker = b, ob_cached = cached, ob_perspective = perspective\<rparr>"

definition getStateToCacheAndObserveFor :: "oid \<Rightarrow> pyval \<Rightarrow> observer \<Rightarrow> world \<Rightarrow> pyval" where
  "getStateToCacheAndObserveFor self perspective obs w = getStateToCopyFor self perspective w"

text \<open>\<^verbatim>\<open>Cacheable.jellyFor\<close>. The connection is handed the instance and keys its outgoing
  cache on the instance's identity, which for a Cacheable is what
  \<^verbatim>\<open>Serializable.processUniqueID\<close> returns.\<close>

definition Cacheable_jellyFor ::
  "getInstanceState_fn \<Rightarrow> oid \<Rightarrow> jellier \<Rightarrow> world \<Rightarrow> pyval result" where
  "Cacheable_jellyFor getInstanceState self j w =
     (case invoker j of
        None \<Rightarrow> (getInstanceState (objs w) (dicts w) self, w)
      | Some c \<Rightarrow>
          (let (found, b1) = cachedRemotelyAs (brokers w c) (Serializable_processUniqueID self) True;
               w1 = upd_broker c b1 w
           in case found of
                None \<Rightarrow>
                  (let (luid, b2) = cacheRemotely (brokers w1 c) (Serializable_processUniqueID self);
                       w2 = upd_broker c b2 w1;
                       p = serializingPerspective (brokers w2 c);
                       ty = getTypeToCopyFor self p w2;
                       obs = RemoteCacheObserver_init c self p;
                       state = getStateToCacheAndObserveFor self p obs w2;
                       l = jellier_prepare self
                   in case jelly j state w2 of
                        (Inl e, w3) \<Rightarrow> (Inl e, w3)
                      | (Inr jstate, w3) \<Rightarrow>
                          (Inr (jellier_preserve self (l @ [ty, PInt luid, jstate])), w3))
              | Some luid \<Rightarrow> (Inr (PTuple [PStr cached_atom, PInt luid]), w1)))"

subsection \<open>RemoteCopy and RemoteCache\<close>

text \<open>\<^verbatim>\<open>self.__dict__ = state\<close>: Python accepts a dictionary only.\<close>

definition RemoteCopy_setCopyableState :: "oid \<Rightarrow> pyval \<Rightarrow> world \<Rightarrow> unit result" where
  "RemoteCopy_setCopyableState self state w =
     (case state of
        PDict d \<Rightarrow> (Inr (), set_dict self d w)
      | _ \<Rightarrow> (Inl TypeError, w))"

definition RemoteCache_jellyFor ::
  "getInstanceState_fn \<Rightarrow> oid \<Rightarrow> jellier \<Rightarrow> world \<Rightarrow> pyval result" where
  "RemoteCache_jellyFor getInstanceState self j w =
     (case invoker j of
        None \<Rightarrow> (getInstanceState (objs w) (dicts w) self, w)
      | Some c \<Rightarrow>
          (case getattr w self ''broker'' of
             Inl e \<Rightarrow> (Inl e, w)
           | Inr b \<Rightarrow>
               if b \<noteq> PBroker c then (Inl AssertionError, w)
               else (case getattr w self ''luid'' of
                       Inl e \<Rightarrow> (Inl e, w)
                     | Inr luid \<Rightarrow> (Inr (PTuple [PStr ''lcache'', luid]), w))))"

text \<open>
  \<^verbatim>\<open>RemoteCache.unjellyFor\<close>. No class of the module defines \<^verbatim>\<open>__init__\<close> for a
  RemoteCache, so \<^verbatim>\<open>getattr(cProxy, "__init__", None)\<close> is \<^verbatim>\<open>None\<close> and the call is
  skipped. \<^verbatim>\<open>setCopyableState\<close> is \<^verbatim>\<open>RemoteCopy\<close>'s.
\<close>

definition RemoteCache_unjellyFor ::
  "setInstanceState_fn \<Rightarrow> oid \<Rightarrow> unjellier \<Rightarrow> pyval list \<Rightarrow> world \<Rightarrow> oid result" where
  "RemoteCache_unjellyFor setInstanceState self u jellyList w =
     (case unjellier_invoker u of
        None \<Rightarrow> setInstanceState self jellyList w
      | Some c \<Rightarrow>
          (let w1 = setattr self ''broker'' (PBroker c) w
           in case py_index jellyList 1 of
                Inl e \<Rightarrow> (Inl e, w1)
              | Inr luid \<Rightarrow>
                  (let w2 = setattr self ''luid'' luid w1;
                       (cProxy, w3) = new_instance Dummy_class w2;
                       w4 = set_class cProxy (ocls (objs w3 self)) w3;
                       w5 = set_dict cProxy (odict (objs w4 self)) w4
                   in case cacheLocally (brokers w5 c) luid self of
                        Inl e \<Rightarrow> (Inl e, w5)
                      | Inr b \<Rightarrow>
                          (let w6 = upd_broker c b w5
                           in case py_index jellyList 2 of
                                Inl e \<Rightarrow> (Inl e, w6)
                              | Inr jstate \<Rightarrow>
                                  (case unjelly u jstate w6 of
                                     (Inl e, w7) \<Rightarrow> (Inl e, w7)
                                   | (Inr state, w7) \<Rightarrow>
                                       (case RemoteCopy_setCopyableState cProxy state w7 of
                                          (Inl e, w8) \<Rightarrow> (Inl e, w8)
                                        | (Inr x, w8) \<Rightarrow>
                                            (let w9 = set_dict self (odict (objs w8 cProxy)) w8;
                                                 w10 = setattr self ''broker'' (PBroker c) w9;
                                                 w11 = setattr self ''luid'' luid w10
                                             in (Inr cProxy, w11))))))))"

text \<open>\<^verbatim>\<open>RemoteCache.__del__\<close>: any exception is caught and logged, so the finalizer
  itself never fails. A broker attribute that is \<^verbatim>\<open>None\<close> is false; one that is no
  connection has no \<^verbatim>\<open>decCacheRef\<close>, which the \<^verbatim>\<open>except\<close> swallows.\<close>

definition RemoteCache_del :: "oid \<Rightarrow> world \<Rightarrow> world" where
  "RemoteCache_del self w =
     (case getattr w self ''broker'' of
        Inr (PBroker c) \<Rightarrow>
          (case getattr w self ''luid'' of
             Inr luid \<Rightarrow> upd_broker c (decCacheRef (brokers w c) luid) w
           | Inl e \<Rightarrow> w)
      | _ \<Rightarrow> w)"

text \<open>\<^verbatim>\<open>unjellyCached\<close>, registered for the tag \<^verbatim>\<open>"cached"\<close>. With no entry the lookup
  gives nothing to read a class from, and the assignment to \<^verbatim>\<open>cProxy.__class__\<close> raises
  a TypeError.\<close>

definition unjellyCached :: "unjellier \<Rightarrow> pyval list \<Rightarrow> world \<Rightarrow> oid result" where
  "unjellyCached u unjellyList w =
     (case py_index unjellyList 1 of
        Inl e \<Rightarrow> (Inl e, w)
      | Inr luid \<Rightarrow>
          (case unjellier_invoker u of
             None \<Rightarrow> (Inl AttributeError, w)
           | Some c \<Rightarrow>
               (let cNotProxy = cachedLocallyAs (brokers w c) luid;
                    (cProxy, w1) = new_instance Dummy_class w
                in case cNotProxy of
                     None \<Rightarrow> (Inl TypeError, w1)
                   | Some inst \<Rightarrow>
                       (let w2 = set_class cProxy (ocls (objs w1 inst)) w1;
                            w3 = set_dict cProxy (odict (objs w2 inst)) w2
                        in (Inr cProxy, w3)))))"

section \<open>Sequences of serializations and probes\<close>

text \<open>Serializing the Cacheables \<open>xs\<close> one after the other over one jellier, each call on
  the world the previous one left (also when it failed); the results in order.\<close>

fun Cacheable_jellyFor_seq ::
  "getInstanceState_fn \<Rightarrow> oid list \<Rightarrow> jellier \<Rightarrow> world \<Rightarrow> (error + pyval) list \<times> world" where
  "Cacheable_jellyFor_seq g [] j w = ([], w)"
| "Cacheable_jellyFor_seq g (x # xs) j w =
     (let (r, w1) = Cacheable_jellyFor g x j w;
          (rs, w2) = Cacheable_jellyFor_seq g xs j w1
      in (r # rs, w2))"

text \<open>An unjelly method that first looks \<open>luid\<close> up in the incoming cache of connection
  \<open>c\<close> and goes on as \<open>un\<close> only if the lookup yields \<open>inst\<close>.\<close>

definition lookup_guard ::
  "bid \<Rightarrow> pyval \<Rightarrow> oid \<Rightarrow> (pyval \<Rightarrow> world \<Rightarrow> pyval result) \<Rightarrow> pyval \<Rightarrow> world \<Rightarrow> pyval result" where
  "lookup_guard c luid inst un v w =
     (if cachedLocallyAs (brokers w c) luid = Some inst then un v w
      else (Inl UnknownLocalId, w))"

text \<open>An unjelly method that stops at once with the error \<open>e\<close>: what it returns is the
  world in which the state would have been deserialized.\<close>

definition stop_at_state :: "error \<Rightarrow> pyval \<Rightarrow> world \<Rightarrow> pyval result" where
  "stop_at_state e v w = (Inl e, w)"

text \<open>An unjelly method for a state that refers back to the object being received: it
  resolves the reference \<^verbatim>\<open>("cached", luid)\<close> through \<open>unjellyCached\<close> and builds the
  state dictionary \<^verbatim>\<open>{me: proxy}\<close>.\<close>

definition reentrant_unjelly :: "bid \<Rightarrow> pyval \<Rightarrow> pyval \<Rightarrow> world \<Rightarrow> pyval result" where
  "reentrant_unjelly c luid v w =
     (case unjellyCached \<lparr>unjellier_invoker = Some c, unjelly = stop_at_state TypeError\<rparr>
             [PStr cached_atom, luid] w of
        (Inl e, w1) \<Rightarrow> (Inl e, w1)
      | (Inr p, w1) \<Rightarrow>
          (Inr (PDict (next_did w1)),
           w1\<lparr>dicts := (dicts w1)(next_did w1 := [''me'' \<mapsto> PObj p]),
              next_did := Suc (next_did w1)\<rparr>))"

section \<open>A small world to run the functions in\<close>

text \<open>Three instances: a perspective object (0), a Viewable (1) and a Cacheable of class
  \<^verbatim>\<open>pkg.A\<close> with state \<^verbatim>\<open>{x: 1}\<close> (2). Connection 0 carries no access context,
  connection 1 carries the perspective object.\<close>

definition world1 :: world where
  "world1 =
     \<lparr>objs = (\<lambda>n. if n = 1 then \<lparr>ocls = \<lparr>cbase = Viewable, cname = ''pkg.V''\<rparr>, odict = 1\<rparr>
                  else if n = 2 then \<lparr>ocls = \<lparr>cbase = Cacheable, cname = ''pkg.A''\<rparr>, odict = 2\<rparr>
                  else \<lparr>ocls = Dummy_class, odict = 0\<rparr>),
      dicts = (\<lambda>d. if d = 2 then [''x'' \<mapsto> PInt 1] else Map.empty),
      next_oid = 3,
      next_did = 3,
      brokers = (\<lambda>c. if c = 1 then empty_broker\<lparr>serializingPerspective := PObj 0\<rparr>
                     else empty_broker)\<rparr>"

text \<open>Two ViewPoints over the same perspective and the same target, constructed one
  after the other.\<close>

definition world_two_viewpoints :: world where
  "world_two_viewpoints =
     snd (ViewPoint_init (PObj 0) (PObj 1) (snd (ViewPoint_init (PObj 0) (PObj 1) world1)))"

text \<open>Stand-ins for the serializer in the examples: a jellier that sends plain data as
  it is and of a dictionary the attribute \<^verbatim>\<open>x\<close>, an unjellier that builds a new
  state dictionary from such a wire value, and plain-instance routines that give the
  class name with the state.\<close>

definition sample_jelly :: "pyval \<Rightarrow> world \<Rightarrow> pyval result" where
  "sample_jelly v w =
     (case v of
        PDict d \<Rightarrow>
          (case dicts w d ''x'' of
             Some x \<Rightarrow> (Inr (PList [PStr ''dictionary'', PList [PStr ''x'', x]]), w)
           | None \<Rightarrow> (Inr (PList [PStr ''dictionary'']), w))
      | _ \<Rightarrow> (Inr v, w))"

definition jellier_on :: "bid option \<Rightarrow> jellier" where
  "jellier_on c = \<lparr>invoker = c, jelly = sample_jelly\<rparr>"

definition sample_unjelly :: "pyval \<Rightarrow> world \<Rightarrow> pyval result" where
  "sample_unjelly v w =
     (Inr (PDict (next_did w)),
      w\<lparr>dicts := (dicts w)
           (next_did w :=
              (case v of
                 PList [PStr tag, PList [PStr k, x]] \<Rightarrow> [k \<mapsto> x]
               | _ \<Rightarrow> Map.empty)),
        next_did := Suc (next_did w)\<rparr>)"

definition unjellier_on :: "bid option \<Rightarrow> unjellier" where
  "unjellier_on c = \<lparr>unjellier_invoker = c, unjelly = sample_unjelly\<rparr>"

definition sample_getInstanceState :: getInstanceState_fn where
  "sample_getInstanceState os ds self =
     Inr (PList [PStr (cname (ocls (os self))), PDict (odict (os self))])"

definition sample_setInstanceState :: setInstanceState_fn where
  "sample_setInstanceState self jellyList w = (Inr self, w)"

text \<open>The receiving side: a new instance (3) of the RemoteCache class registered for
  \<^verbatim>\<open>pkg.A\<close>, and the world after it has received the full-cache tuple with LUID 1 on
  connection 0.\<close>

definition world_rc :: world where
  "world_rc = snd (new_instance \<lparr>cbase = RemoteCache, cname = ''pkg.A''\<rparr> world1)"

definition world_received :: world where
  "world_received =
     snd (RemoteCache_unjellyFor sample_setInstanceState 3 (unjellier_on (Some 0))
            [PStr ''pkg.A'', PInt 1, PList [PStr ''dictionary'', PList [PStr ''x'', PInt 1]]]
            world_rc)"

text \<open>A second new instance (5) of that class, about to receive LUID 1 once more.\<close>

definition world_second :: world where
  "world_second = snd (new_instance \<lparr>cbase = RemoteCache, cname = ''pkg.A''\<rparr> world_received)"

text \<open>An unjellier on connection 0 whose state refers back to LUID 1.\<close>

definition unjellier_reentrant :: unjellier where
  "unjellier_reentrant =
     \<lparr>unjellier_invoker = Some 0, unjelly = reentrant_unjelly 0 (PInt 1)\<rparr>"

section \<open>The example worlds, evaluated\<close>

lemmas run_simps =
  world1_def world_rc_def world_received_def world_second_def
  new_instance_def setattr_def set_class_def set_dict_def getattr_def class_attr_def
  upd_broker_def empty_broker_def Dummy_class_def ViewPoint_class_def ViewPoint_init_def
  py_index_def jellier_on_def unjellier_on_def sample_jelly_def sample_unjelly_def
  sample_getInstanceState_def sample_setInstanceState_def
  cachedRemotelyAs_def cacheRemotely_def cacheLocally_def cachedLocallyAs_def
  decCacheRef_def registerReference_def
  processUniqueID_def ViewPoint_processUniqueID_def Serializable_processUniqueID_def
  Referenceable_jellyFor_def Viewable_jellyFor_def Cacheable_jellyFor_def
  Copyable_jellyFor_def RemoteCache_jellyFor_def RemoteCache_unjellyFor_def
  RemoteCopy_setCopyableState_def unjellyCached_def RemoteCache_del_def
  getTypeToCopyFor_def getTypeToCopy_def getStateToCacheAndObserveFor_def
  getStateToCopyFor_def getStateToCopy_def jellier_prepare_def jellier_preserve_def
  cached_atom_def stop_at_state_def lookup_guard_def reentrant_unjelly_def
  Let_def split_beta

lemma two_viewpoints_fields:
  "getattr world_two_viewpoints 3 ''perspective'' = Inr (PObj 0)"
  "getattr world_two_viewpoints 3 ''object'' = Inr (PObj 1)"
  "getattr world_two_viewpoints 4 ''perspective'' = Inr (PObj 0)"
  "getattr world_two_viewpoints 4 ''object'' = Inr (PObj 1)"
  by (simp_all add: world_two_viewpoints_def run_simps)

lemma received_run:
  "fst (RemoteCache_unjellyFor sample_setInstanceState 3 (unjellier_on (Some 0))
          [PStr ''pkg.A'', PInt 1, PList [PStr ''dictionary'', PList [PStr ''x'', PInt 1]]]
          world_rc) = Inr 4"
  by (simp add: run_simps)

lemma received_facts:
  "incoming (brokers world_received 0) (PInt 1) = Some 3"
  "next_oid world_received = 5"
  "odict (objs world_received 3) = 5"
  "odict (objs world_received 4) = 5"
  "next_did world_received = 6"
  "getattr world_received 4 ''broker'' = Inr (PBroker 0)"
  "getattr world_received 4 ''luid'' = Inr (PInt 1)"
  "getattr world_received 4 ''x'' = Inr (PInt 1)"
  "released (brokers world_received 0) = []"
  by (simp_all add: run_simps)

lemma second_facts:
  "incoming (brokers world_second 0) (PInt 1) = Some 3"
  "next_oid world_second = 6"
  "odict (objs world_second 3) = 5"
  "next_did world_second = 7"
  "ocls (objs world_second 3) = \<lparr>cbase = RemoteCache, cname = ''pkg.A''\<rparr>"
  by (simp_all add: world_second_def new_instance_def received_facts)
    (simp_all add: run_simps)

lemma sample_jelly_ok: "\<forall>v w'. \<exists>jstate. fst (sample_jelly v w') = Inr jstate"
  by (simp add: sample_jelly_def split: pyval.splits option.splits)

lemma sample_jelly_pure: "snd (sample_jelly v w') = w'"
  by (simp add: sample_jelly_def split: pyval.splits option.splits)

lemma sample_unjelly_dict: "\<forall>v w'. \<exists>d w''. sample_unjelly v w' = (Inr (PDict d), w'')"
  by (simp add: sample_unjelly_def)

section \<open>Identity of a ViewPoint\<close>

lemma py_id_inj: "is_ref a \<Longrightarrow> is_ref b \<Longrightarrow> (py_id a = py_id b) = (a = b)"
  by (cases a; cases b) auto

text \<open>
  C6. The identity key of a ViewPoint is the pair (identity of its access context,
  identity of its target): two ViewPoints, whatever their own identities \<open>W1\<close> and
  \<open>W2\<close>, have the same key exactly when their access contexts are the same object and
  their targets are the same object.
\<close>

theorem ViewPoint_processUniqueID_is_pair_identity:
  assumes "getattr w W1 ''perspective'' = Inr p1" and "getattr w W1 ''object'' = Inr o1"
    and "getattr w W2 ''perspective'' = Inr p2" and "getattr w W2 ''object'' = Inr o2"
    and "is_ref p1" and "is_ref o1" and "is_ref p2" and "is_ref o2"
  shows "ViewPoint_processUniqueID W1 w = Inr (PTuple [PInt (py_id p1), PInt (py_id o1)])
       \<and> (ViewPoint_processUniqueID W1 w = ViewPoint_processUniqueID W2 w)
           = (p1 = p2 \<and> o1 = o2)"
  using assms by (simp add: ViewPoint_processUniqueID_def py_id_inj)

theorem ViewPoint_processUniqueID_is_pair_identity_witness:
  "(3::nat) \<noteq> 4
   \<and> ViewPoint_processUniqueID 3 world_two_viewpoints = Inr (PTuple [PInt 1, PInt 2])
   \<and> ViewPoint_processUniqueID 3 world_two_viewpoints
       = ViewPoint_processUniqueID 4 world_two_viewpoints"
  using ViewPoint_processUniqueID_is_pair_identity
    [of world_two_viewpoints 3 "PObj 0" "PObj 1" 4 "PObj 0" "PObj 1"]
  by (auto simp add: two_viewpoints_fields)

section \<open>Viewable\<close>

lemma new_ViewPoint_fields:
  assumes "ViewPoint_init p ob w = (vp, w1)"
  shows "getattr w1 vp ''perspective'' = Inr p" "getattr w1 vp ''object'' = Inr ob"
    "cbase (ocls (objs w1 vp)) = ViewPoint" "brokers w1 = brokers w"
  using assms
  by (auto simp add: ViewPoint_init_def new_instance_def setattr_def getattr_def
      ViewPoint_class_def Let_def)

lemma processUniqueID_ViewPoint:
  assumes "cbase (ocls (objs w vp)) = ViewPoint"
    and "getattr w vp ''perspective'' = Inr p" and "getattr w vp ''object'' = Inr ob"
  shows "processUniqueID vp w = Inr (PTuple [PInt (py_id p), PInt (py_id ob)])"
  using assms by (simp add: processUniqueID_def ViewPoint_processUniqueID_def)

lemma Referenceable_jellyFor_ViewPoint:
  assumes "invoker j = Some c" and "cbase (ocls (objs w vp)) = ViewPoint"
    and "getattr w vp ''perspective'' = Inr p" and "getattr w vp ''object'' = Inr ob"
  shows "fst (Referenceable_jellyFor vp j w) =
           Inr (PTuple [PStr ''remote'',
                  PInt (fst (registerReference (brokers w c) (PTuple [PInt (py_id p), PInt (py_id ob)])))])"
    and "brokers (snd (Referenceable_jellyFor vp j w)) =
           (brokers w)(c := snd (registerReference (brokers w c) (PTuple [PInt (py_id p), PInt (py_id ob)])))"
  using assms processUniqueID_ViewPoint [OF assms(2-4)]
  by (simp_all add: Referenceable_jellyFor_def upd_broker_def split_beta Let_def)

text \<open>
  C5 (as amended). Serializing a Viewable \<open>V\<close> over a connection never fails for want
  of an access context: the result is always a reference form \<^verbatim>\<open>("remote", RefId)\<close>,
  also when the connection's access context is \<^verbatim>\<open>None\<close>. Whatever the access context
  \<open>P\<close> of the connection is, the wire form and the connection's state afterwards are
  those of serializing any ViewPoint over \<open>(P, V)\<close> in the same world.
\<close>

theorem Viewable_jellyFor_is_ViewPoint_reference:
  assumes inv: "invoker j = Some c"
  shows "(\<exists>rid. fst (Viewable_jellyFor V j w) = Inr (PTuple [PStr ''remote'', PInt rid]))
       \<and> (\<forall>vp. cbase (ocls (objs w vp)) = ViewPoint
               \<and> getattr w vp ''perspective'' = Inr (serializingPerspective (brokers w c))
               \<and> getattr w vp ''object'' = Inr (PObj V)
             \<longrightarrow> fst (Viewable_jellyFor V j w) = fst (Referenceable_jellyFor vp j w)
               \<and> brokers (snd (Viewable_jellyFor V j w))
                   = brokers (snd (Referenceable_jellyFor vp j w)))"
proof -
  obtain vp0 w1 where init: "ViewPoint_init (serializingPerspective (brokers w c)) (PObj V) w = (vp0, w1)"
    by (cases "ViewPoint_init (serializingPerspective (brokers w c)) (PObj V) w")
  have run: "Viewable_jellyFor V j w = Referenceable_jellyFor vp0 j w1"
    using inv init by (simp add: Viewable_jellyFor_def)
  note f = new_ViewPoint_fields [OF init]
  have b: "brokers w1 c = brokers w c" using f(4) by simp
  note own = Referenceable_jellyFor_ViewPoint [OF inv f(3) f(1) f(2)]
  have first: "\<exists>rid. fst (Viewable_jellyFor V j w) = Inr (PTuple [PStr ''remote'', PInt rid])"
    using run own(1) by simp
  have second: "fst (Viewable_jellyFor V j w) = fst (Referenceable_jellyFor vp j w)
               \<and> brokers (snd (Viewable_jellyFor V j w))
                   = brokers (snd (Referenceable_jellyFor vp j w))"
    if vp: "cbase (ocls (objs w vp)) = ViewPoint"
       "getattr w vp ''perspective'' = Inr (serializingPerspective (brokers w c))"
       "getattr w vp ''object'' = Inr (PObj V)" for vp
    using run own Referenceable_jellyFor_ViewPoint [OF inv vp] b f(4) by simp
  show ?thesis using first second by blast
qed

theorem Viewable_jellyFor_is_ViewPoint_reference_witness:
  "fst (Viewable_jellyFor 1 (jellier_on (Some 1)) world_two_viewpoints)
     = fst (Referenceable_jellyFor 3 (jellier_on (Some 1)) world_two_viewpoints)
   \<and> fst (Referenceable_jellyFor 3 (jellier_on (Some 1)) world_two_viewpoints)
     = Inr (PTuple [PStr ''remote'', PInt 1])"
proof -
  have a: "invoker (jellier_on (Some 1)) = Some 1" by (simp add: jellier_on_def)
  have b: "cbase (ocls (objs world_two_viewpoints 3)) = ViewPoint"
    "getattr world_two_viewpoints 3 ''perspective'' = Inr (serializingPerspective (brokers world_two_viewpoints 1))"
    "getattr world_two_viewpoints 3 ''object'' = Inr (PObj 1)"
    by (simp_all add: world_two_viewpoints_def run_simps)
  have c: "fst (Referenceable_jellyFor 3 (jellier_on (Some 1)) world_two_viewpoints)
     = Inr (PTuple [PStr ''remote'', PInt 1])"
    by (simp add: world_two_viewpoints_def run_simps)
  show ?thesis
    using Viewable_jellyFor_is_ViewPoint_reference [OF a, of 1 world_two_viewpoints] b c by simp
qed

theorem Viewable_jellyFor_counterexample:
  "serializingPerspective (brokers world1 0) = PNone
   \<and> fst (Viewable_jellyFor 1 (jellier_on (Some 0)) world1) = Inr (PTuple [PStr ''remote'', PInt 1])
   \<and> fst (Viewable_jellyFor 1 (jellier_on (Some 0)) world1) \<noteq> Inl CannotViewWithoutContext
   \<and> fst (Viewable_jellyFor 1 (jellier_on None) world1) = Inl AttributeError"
  by (simp add: run_simps)

section \<open>Serializing without a connection\<close>

text \<open>
  C10. Under a jellier with no connection, a Copyable, a Cacheable and a RemoteCache are
  each serialized as the serializer's plain instance state, computed from the instances
  and dictionaries alone; the world, and with it every connection's cache table and LUID
  counter, is left as it was.
\<close>

theorem jellyFor_without_invoker_is_plain_state:
  assumes "invoker j = None"
  shows "Copyable_jellyFor g self j w = (g (objs w) (dicts w) self, w)
       \<and> Cacheable_jellyFor g self j w = (g (objs w) (dicts w) self, w)
       \<and> RemoteCache_jellyFor g self j w = (g (objs w) (dicts w) self, w)"
  using assms
  by (simp add: Copyable_jellyFor_def Cacheable_jellyFor_def RemoteCache_jellyFor_def)

theorem jellyFor_without_invoker_is_plain_state_witness:
  "Copyable_jellyFor sample_getInstanceState 2 (jellier_on None) world1
     = (Inr (PList [PStr ''pkg.A'', PDict 2]), world1)
   \<and> Cacheable_jellyFor sample_getInstanceState 2 (jellier_on None) world1
     = (Inr (PList [PStr ''pkg.A'', PDict 2]), world1)
   \<and> RemoteCache_jellyFor sample_getInstanceState 2 (jellier_on None) world1
     = (Inr (PList [PStr ''pkg.A'', PDict 2]), world1)"
proof -
  have a: "invoker (jellier_on None) = None" by (simp add: jellier_on_def)
  have b: "sample_getInstanceState (objs world1) (dicts world1) 2 = Inr (PList [PStr ''pkg.A'', PDict 2])"
    by (simp add: sample_getInstanceState_def world1_def)
  show ?thesis
    using jellyFor_without_invoker_is_plain_state [OF a, of sample_getInstanceState 2 world1] b
    by simp
qed

section \<open>Cacheable: full state once, references afterwards\<close>

lemma empty_broker_bounded:
  "\<forall>k l. outgoing empty_broker k = Some l \<longrightarrow> l \<le> lastLUID empty_broker"
  by (simp add: empty_broker_def)

lemma cacheRemotely_bounded:
  assumes "\<forall>k l. outgoing b k = Some l \<longrightarrow> l \<le> lastLUID b"
  shows "\<forall>k l. outgoing (snd (cacheRemotely b key)) k = Some l
           \<longrightarrow> l \<le> lastLUID (snd (cacheRemotely b key))"
  using assms by (fastforce simp add: cacheRemotely_def Let_def split: option.splits if_splits)

lemma Cacheable_jellyFor_hit:
  assumes "invoker j = Some c"
    and "outgoing (brokers w c) (Serializable_processUniqueID obj) = Some luid"
  shows "fst (Cacheable_jellyFor g obj j w) = Inr (PTuple [PStr ''cached'', PInt luid])"
    and "outgoing (brokers (snd (Cacheable_jellyFor g obj j w)) c) = outgoing (brokers w c)"
  using assms
  by (simp_all add: Cacheable_jellyFor_def cachedRemotelyAs_def upd_broker_def cached_atom_def)

lemma Cacheable_jellyFor_miss:
  assumes "invoker j = Some c"
    and "outgoing (brokers w c) (Serializable_processUniqueID obj) = None"
  shows "Cacheable_jellyFor g obj j w =
     (let w2 = upd_broker c (snd (cacheRemotely (brokers w c) (Serializable_processUniqueID obj)))
                 (upd_broker c (brokers w c) w)
      in case jelly j (PDict (odict (objs w obj))) w2 of
           (Inl e, w3) \<Rightarrow> (Inl e, w3)
         | (Inr jstate, w3) \<Rightarrow>
             (Inr (PList [PStr (cname (ocls (objs w obj))), PInt (lastLUID (brokers w c) + 1), jstate]), w3))"
  using assms
  by (simp add: Cacheable_jellyFor_def cachedRemotelyAs_def cacheRemotely_def upd_broker_def
      getTypeToCopyFor_def getTypeToCopy_def getStateToCacheAndObserveFor_def
      getStateToCopyFor_def getStateToCopy_def jellier_prepare_def jellier_preserve_def Let_def
      split: prod.splits sum.splits)

lemma Cacheable_jellyFor_keeps:
  assumes inv: "invoker j = Some c"
    and keeps: "\<forall>v w'. outgoing (brokers w' c) \<subseteq>\<^sub>m outgoing (brokers (snd (jelly j v w')) c)"
  shows "outgoing (brokers w c) \<subseteq>\<^sub>m outgoing (brokers (snd (Cacheable_jellyFor g x j w)) c)"
proof (cases "outgoing (brokers w c) (Serializable_processUniqueID x)")
  case (Some l)
  then show ?thesis using Cacheable_jellyFor_hit(2) [OF inv Some] by simp
next
  case None
  define w2 where "w2 = upd_broker c (snd (cacheRemotely (brokers w c) (Serializable_processUniqueID x)))
                 (upd_broker c (brokers w c) w)"
  have a: "outgoing (brokers w c) \<subseteq>\<^sub>m outgoing (brokers w2 c)"
    using None by (auto simp add: w2_def upd_broker_def cacheRemotely_def Let_def map_le_def)
  have b: "outgoing (brokers w2 c) \<subseteq>\<^sub>m
             outgoing (brokers (snd (jelly j (PDict (odict (objs w x))) w2)) c)"
    using keeps by blast
  have c: "snd (Cacheable_jellyFor g x j w) = snd (jelly j (PDict (odict (objs w x))) w2)"
    unfolding Cacheable_jellyFor_miss [OF inv None] w2_def [symmetric]
    by (simp add: Let_def split: prod.splits sum.splits)
  show ?thesis using a b c map_le_trans by metis
qed

lemma Cacheable_jellyFor_seq_cached:
  assumes inv: "invoker j = Some c"
    and keeps: "\<forall>v w'. outgoing (brokers w' c) \<subseteq>\<^sub>m outgoing (brokers (snd (jelly j v w')) c)"
  shows "outgoing (brokers w c) (Serializable_processUniqueID obj) = Some luid \<Longrightarrow>
         i < length xs \<Longrightarrow> xs ! i = obj \<Longrightarrow>
         fst (Cacheable_jellyFor_seq g xs j w) ! i = Inr (PTuple [PStr ''cached'', PInt luid])"
proof (induction xs arbitrary: w i)
  case Nil
  then show ?case by simp
next
  case (Cons x xs)
  have still: "outgoing (brokers (snd (Cacheable_jellyFor g x j w)) c)
                 (Serializable_processUniqueID obj) = Some luid"
    using Cacheable_jellyFor_keeps [OF inv keeps, of w g x] Cons.prems(1)
    by (auto simp add: map_le_def dom_def)
  show ?case
  proof (cases i)
    case 0
    then have "x = obj" using Cons.prems(3) by simp
    then show ?thesis using 0 Cacheable_jellyFor_hit(1) [OF inv Cons.prems(1)]
      by (simp add: split_beta Let_def)
  next
    case (Suc k)
    then have "k < length xs" "xs ! k = obj" using Cons.prems by simp_all
    then show ?thesis using Suc Cons.IH [OF still]
      by (simp add: split_beta Let_def)
  qed
qed

text \<open>
  C1. Over a connection \<open>c\<close> whose outgoing cache does not hold the Cacheable \<open>obj\<close>
  yet, with a serializer that succeeds and never drops an outgoing entry, the first
  serialization emits the full form (type tag, LUID, serialized state) with a LUID that
  no object had on this connection; and in every sequence \<open>xs\<close> of later serializations
  over the same connection, every serialization of \<open>obj\<close>, however many there are and
  whatever is serialized in between, emits \<^verbatim>\<open>("cached", LUID)\<close> with that same LUID and
  no state.
\<close>

theorem Cacheable_jellyFor_full_once_then_cached:
  assumes inv: "invoker j = Some c"
    and fresh: "outgoing (brokers w c) (Serializable_processUniqueID obj) = None"
    and bounded: "\<forall>k l. outgoing (brokers w c) k = Some l \<longrightarrow> l \<le> lastLUID (brokers w c)"
    and jelly_ok: "\<forall>v w'. \<exists>jstate. fst (jelly j v w') = Inr jstate"
    and keeps: "\<forall>v w'. outgoing (brokers w' c) \<subseteq>\<^sub>m outgoing (brokers (snd (jelly j v w')) c)"
  shows "\<exists>luid jstate w1.
           Cacheable_jellyFor g obj j w =
             (Inr (PList [PStr (cname (ocls (objs w obj))), PInt luid, jstate]), w1)
         \<and> luid \<notin> ran (outgoing (brokers w c))
         \<and> (\<exists>w'. objs w' = objs w \<and> dicts w' = dicts w
                 \<and> fst (jelly j (PDict (odict (objs w obj))) w') = Inr jstate)
         \<and> (\<forall>xs i. i < length xs \<and> xs ! i = obj \<longrightarrow>
               fst (Cacheable_jellyFor_seq g xs j w1) ! i
                 = Inr (PTuple [PStr ''cached'', PInt luid]))"
proof -
  define luid where "luid = lastLUID (brokers w c) + 1"
  define w2 where "w2 = upd_broker c (snd (cacheRemotely (brokers w c) (Serializable_processUniqueID obj)))
                 (upd_broker c (brokers w c) w)"
  obtain jstate where js: "fst (jelly j (PDict (odict (objs w obj))) w2) = Inr jstate"
    using jelly_ok by blast
  define w1 where "w1 = snd (jelly j (PDict (odict (objs w obj))) w2)"
  have run: "Cacheable_jellyFor g obj j w =
             (Inr (PList [PStr (cname (ocls (objs w obj))), PInt luid, jstate]), w1)"
    unfolding Cacheable_jellyFor_miss [OF inv fresh] w2_def [symmetric]
    using js by (cases "jelly j (PDict (odict (objs w obj))) w2") (auto simp add: luid_def w1_def Let_def)
  have notin: "luid \<notin> ran (outgoing (brokers w c))"
    using bounded by (fastforce simp add: ran_def luid_def)
  have w2_heap: "objs w2 = objs w \<and> dicts w2 = dicts w"
    by (simp add: w2_def upd_broker_def)
  have reg: "outgoing (brokers w2 c) (Serializable_processUniqueID obj) = Some luid"
    using fresh by (simp add: w2_def upd_broker_def cacheRemotely_def Let_def luid_def)
  have "outgoing (brokers w2 c) \<subseteq>\<^sub>m outgoing (brokers w1 c)"
    using keeps unfolding w1_def by blast
  then have cached: "outgoing (brokers w1 c) (Serializable_processUniqueID obj) = Some luid"
    using reg by (auto simp add: map_le_def dom_def)
  have later: "\<forall>xs i. i < length xs \<and> xs ! i = obj \<longrightarrow>
               fst (Cacheable_jellyFor_seq g xs j w1) ! i
                 = Inr (PTuple [PStr ''cached'', PInt luid])"
    using Cacheable_jellyFor_seq_cached [OF inv keeps cached] by blast
  show ?thesis using run notin w2_heap js later by blast
qed

theorem Cacheable_jellyFor_full_once_then_cached_witness:
  "fst (Cacheable_jellyFor sample_getInstanceState 2 (jellier_on (Some 0)) world1)
     = Inr (PList [PStr ''pkg.A'', PInt 1, PList [PStr ''dictionary'', PList [PStr ''x'', PInt 1]]])
   \<and> fst (Cacheable_jellyFor_seq sample_getInstanceState [2, 2, 2] (jellier_on (Some 0))
            (snd (Cacheable_jellyFor sample_getInstanceState 2 (jellier_on (Some 0)) world1))) ! 0
     = Inr (PTuple [PStr ''cached'', PInt 1])
   \<and> fst (Cacheable_jellyFor_seq sample_getInstanceState [2, 2, 2] (jellier_on (Some 0))
            (snd (Cacheable_jellyFor sample_getInstanceState 2 (jellier_on (Some 0)) world1))) ! 2
     = Inr (PTuple [PStr ''cached'', PInt 1])"
proof -
  let ?j = "jellier_on (Some 0)"
  let ?g = sample_getInstanceState
  have a: "invoker ?j = Some 0" by (simp add: jellier_on_def)
  have b: "outgoing (brokers world1 0) (Serializable_processUniqueID 2) = None"
    by (simp add: world1_def empty_broker_def)
  have c: "\<forall>k l. outgoing (brokers world1 0) k = Some l \<longrightarrow> l \<le> lastLUID (brokers world1 0)"
    by (simp add: world1_def empty_broker_def)
  have d: "\<forall>v w'. \<exists>jstate. fst (jelly ?j v w') = Inr jstate"
    using sample_jelly_ok by (simp add: jellier_on_def)
  have e: "\<forall>v w'. outgoing (brokers w' 0) \<subseteq>\<^sub>m outgoing (brokers (snd (jelly ?j v w')) 0)"
    by (simp add: jellier_on_def sample_jelly_pure)
  have first: "fst (Cacheable_jellyFor ?g 2 ?j world1)
     = Inr (PList [PStr ''pkg.A'', PInt 1, PList [PStr ''dictionary'', PList [PStr ''x'', PInt 1]]])"
    by (simp add: run_simps)
  from Cacheable_jellyFor_full_once_then_cached [OF a b c d e, of ?g]
  obtain luid jstate w1 where
    r: "Cacheable_jellyFor ?g 2 ?j world1 =
             (Inr (PList [PStr (cname (ocls (objs world1 2))), PInt luid, jstate]), w1)"
    and later: "\<forall>xs i. i < length xs \<and> xs ! i = 2 \<longrightarrow>
               fst (Cacheable_jellyFor_seq ?g xs ?j w1) ! i
                 = Inr (PTuple [PStr ''cached'', PInt luid])"
    by blast
  have l1: "luid = 1" and w1: "w1 = snd (Cacheable_jellyFor ?g 2 ?j world1)"
    using r first by simp_all
  have n0: "fst (Cacheable_jellyFor_seq ?g [2, 2, 2] ?j w1) ! 0 = Inr (PTuple [PStr ''cached'', PInt luid])"
    by (rule later [rule_format]) simp
  have n2: "fst (Cacheable_jellyFor_seq ?g [2, 2, 2] ?j w1) ! 2 = Inr (PTuple [PStr ''cached'', PInt luid])"
    by (rule later [rule_format]) simp
  show ?thesis using first n0 n2 unfolding l1 w1 by blast
qed

section \<open>RemoteCache: receiving the full state\<close>

text \<open>
  C3. When the incoming cache of the connection already holds an instance for the LUID of
  a full-cache tuple, receiving the tuple fails with DuplicateCacheState, and the
  connection's tables are left as they were: the existing entry is neither overwritten
  nor registered again.
\<close>

theorem RemoteCache_unjellyFor_duplicate:
  assumes "unjellier_invoker u = Some c" and "py_index jl 1 = Inr luid"
    and "incoming (brokers w c) luid = Some existing"
  shows "fst (RemoteCache_unjellyFor sis self u jl w) = Inl DuplicateCacheState
       \<and> brokers (snd (RemoteCache_unjellyFor sis self u jl w)) = brokers w"
  using assms
  by (simp add: RemoteCache_unjellyFor_def cacheLocally_def new_instance_def setattr_def
      set_class_def set_dict_def split_beta Let_def)

theorem RemoteCache_unjellyFor_duplicate_witness:
  "fst (RemoteCache_unjellyFor sample_setInstanceState 5 (unjellier_on (Some 0))
          [PStr ''pkg.A'', PInt 1, PList [PStr ''dictionary'', PList [PStr ''x'', PInt 2]]]
          world_second) = Inl DuplicateCacheState
   \<and> incoming (brokers (snd (RemoteCache_unjellyFor sample_setInstanceState 5 (unjellier_on (Some 0))
          [PStr ''pkg.A'', PInt 1, PList [PStr ''dictionary'', PList [PStr ''x'', PInt 2]]]
          world_second)) 0) (PInt 1) = Some 3"
proof -
  have a: "unjellier_invoker (unjellier_on (Some 0)) = Some 0" by (simp add: unjellier_on_def)
  have b: "py_index [PStr ''pkg.A'', PInt 1, PList [PStr ''dictionary'', PList [PStr ''x'', PInt 2]]] 1
             = Inr (PInt 1)" by (simp add: py_index_def)
  show ?thesis
    using RemoteCache_unjellyFor_duplicate [OF a b second_facts(1)] second_facts(1) by simp
qed

text \<open>
  C7. When a full-cache tuple with a LUID not yet in the incoming cache is received, the
  instance is registered under the LUID before the state is deserialized and applied: an
  unjelly method that begins with a lookup of the LUID always finds the instance, so
  guarding it with that lookup changes nothing; and stopped at the moment the state would
  be deserialized, the world already has the instance registered under the LUID, with the
  proxy the state is about to be applied to (the new instance \<open>next_oid w\<close>) sharing its
  class and its dictionary.
\<close>

theorem RemoteCache_unjellyFor_registers_first:
  assumes "unjellier_invoker u = Some c" and "py_index jl 1 = Inr luid"
    and "py_index jl 2 = Inr jstate" and "incoming (brokers w c) luid = None"
  shows "RemoteCache_unjellyFor sis self (u\<lparr>unjelly := lookup_guard c luid self (unjelly u)\<rparr>) jl w
           = RemoteCache_unjellyFor sis self u jl w
       \<and> cachedLocallyAs
           (brokers (snd (RemoteCache_unjellyFor sis self (u\<lparr>unjelly := stop_at_state e\<rparr>) jl w)) c)
           luid = Some self
       \<and> objs (snd (RemoteCache_unjellyFor sis self (u\<lparr>unjelly := stop_at_state e\<rparr>) jl w))
           (next_oid w)
           = objs (snd (RemoteCache_unjellyFor sis self (u\<lparr>unjelly := stop_at_state e\<rparr>) jl w)) self"
  using assms
  by (simp add: RemoteCache_unjellyFor_def cacheLocally_def cachedLocallyAs_def lookup_guard_def stop_at_state_def
      new_instance_def setattr_def set_class_def set_dict_def upd_broker_def split_beta Let_def)

theorem RemoteCache_unjellyFor_registers_first_witness:
  "RemoteCache_unjellyFor sample_setInstanceState 3
       (unjellier_reentrant\<lparr>unjelly := lookup_guard 0 (PInt 1) 3 (unjelly unjellier_reentrant)\<rparr>)
       [PStr ''pkg.A'', PInt 1, PList [PStr ''cached'', PInt 1]] world_rc
     = RemoteCache_unjellyFor sample_setInstanceState 3 unjellier_reentrant
         [PStr ''pkg.A'', PInt 1, PList [PStr ''cached'', PInt 1]] world_rc
   \<and> fst (RemoteCache_unjellyFor sample_setInstanceState 3 unjellier_reentrant
         [PStr ''pkg.A'', PInt 1, PList [PStr ''cached'', PInt 1]] world_rc) = Inr 4
   \<and> getattr (snd (RemoteCache_unjellyFor sample_setInstanceState 3 unjellier_reentrant
         [PStr ''pkg.A'', PInt 1, PList [PStr ''cached'', PInt 1]] world_rc)) 4 ''me'' = Inr (PObj 5)
   \<and> cachedLocallyAs (brokers (snd (RemoteCache_unjellyFor sample_setInstanceState 3
         (unjellier_reentrant\<lparr>unjelly := stop_at_state UnknownLocalId\<rparr>)
         [PStr ''pkg.A'', PInt 1, PList [PStr ''cached'', PInt 1]] world_rc)) 0) (PInt 1) = Some 3"
proof -
  let ?jl = "[PStr ''pkg.A'', PInt 1, PList [PStr ''cached'', PInt 1]]"
  have a: "unjellier_invoker unjellier_reentrant = Some 0" by (simp add: unjellier_reentrant_def)
  have b: "py_index ?jl 1 = Inr (PInt 1)" "py_index ?jl 2 = Inr (PList [PStr ''cached'', PInt 1])"
    by (simp_all add: py_index_def)
  have c: "incoming (brokers world_rc 0) (PInt 1) = None"
    by (simp add: world_rc_def world1_def new_instance_def empty_broker_def)
  have run: "fst (RemoteCache_unjellyFor sample_setInstanceState 3 unjellier_reentrant ?jl world_rc) = Inr 4"
    "getattr (snd (RemoteCache_unjellyFor sample_setInstanceState 3 unjellier_reentrant ?jl world_rc)) 4 ''me''
       = Inr (PObj 5)"
    by (simp_all add: unjellier_reentrant_def run_simps)
  show ?thesis
    using RemoteCache_unjellyFor_registers_first
      [OF a b c, of sample_setInstanceState 3 UnknownLocalId] run
    by simp
qed

text \<open>
  C9. A full-cache tuple received on connection \<open>c\<close> gives a proxy whose serialization
  under the same connection is the reference form \<^verbatim>\<open>("lcache", LUID)\<close> with the LUID of
  the tuple: no state is sent again, and the world is not changed by it.
\<close>

theorem RemoteCache_roundtrip_is_reference:
  assumes "unjellier_invoker u = Some c" and "py_index jl 1 = Inr luid"
    and "py_index jl 2 = Inr jstate" and "incoming (brokers w c) luid = None"
    and dict: "\<forall>v w'. \<exists>d w''. unjelly u v w' = (Inr (PDict d), w'')"
    and "invoker j = Some c"
  shows "\<exists>cProxy w'. RemoteCache_unjellyFor sis self u jl w = (Inr cProxy, w')
       \<and> RemoteCache_jellyFor g cProxy j w' = (Inr (PTuple [PStr ''lcache'', luid]), w')"
proof -
  from dict obtain D W where h: "\<And>v w'. unjelly u v w' = (Inr (PDict (D v w')), W v w')"
    by metis
  show ?thesis
    using assms(1-4,6)
    by (simp add: RemoteCache_unjellyFor_def RemoteCache_jellyFor_def cacheLocally_def h
      RemoteCopy_setCopyableState_def getattr_def
      new_instance_def setattr_def set_class_def set_dict_def upd_broker_def split_beta Let_def)
qed

theorem RemoteCache_roundtrip_is_reference_witness:
  "fst (RemoteCache_unjellyFor sample_setInstanceState 3 (unjellier_on (Some 0))
          [PStr ''pkg.A'', PInt 1, PList [PStr ''dictionary'', PList [PStr ''x'', PInt 1]]]
          world_rc) = Inr 4
   \<and> RemoteCache_jellyFor sample_getInstanceState 4 (jellier_on (Some 0)) world_received
       = (Inr (PTuple [PStr ''lcache'', PInt 1]), world_received)"
proof -
  let ?jl = "[PStr ''pkg.A'', PInt 1, PList [PStr ''dictionary'', PList [PStr ''x'', PInt 1]]]"
  have a: "unjellier_invoker (unjellier_on (Some 0)) = Some 0" by (simp add: unjellier_on_def)
  have b: "py_index ?jl 1 = Inr (PInt 1)"
    "py_index ?jl 2 = Inr (PList [PStr ''dictionary'', PList [PStr ''x'', PInt 1]])"
    by (simp_all add: py_index_def)
  have c: "incoming (brokers world_rc 0) (PInt 1) = None"
    by (simp add: world_rc_def world1_def new_instance_def empty_broker_def)
  have d: "\<forall>v w'. \<exists>d w''. unjelly (unjellier_on (Some 0)) v w' = (Inr (PDict d), w'')"
    using sample_unjelly_dict by (simp add: unjellier_on_def)
  have e: "invoker (jellier_on (Some 0)) = Some 0" by (simp add: jellier_on_def)
  from RemoteCache_roundtrip_is_reference [OF a b c d e, of sample_setInstanceState 3 sample_getInstanceState]
  obtain cProxy w' where
    r: "RemoteCache_unjellyFor sample_setInstanceState 3 (unjellier_on (Some 0)) ?jl world_rc = (Inr cProxy, w')"
    and t: "RemoteCache_jellyFor sample_getInstanceState cProxy (jellier_on (Some 0)) w'
       = (Inr (PTuple [PStr ''lcache'', PInt 1]), w')"
    by blast
  have "cProxy = 4" using r received_run by simp
  moreover have "w' = world_received" using r by (simp add: world_received_def)
  ultimately show ?thesis using t received_run by simp
qed

section \<open>RemoteCache: cached references\<close>

text \<open>
  C2 (as amended). Reconstructing a cached-reference tuple whose LUID has no entry in the
  incoming cache fails and returns no proxy; the failure is the TypeError of assigning a
  class read from the absent lookup result, and the connection's tables are unchanged.
\<close>

theorem unjellyCached_unknown_luid:
  assumes "unjellier_invoker u = Some c" and "py_index jl 1 = Inr luid"
    and "incoming (brokers w c) luid = None"
  shows "fst (unjellyCached u jl w) = Inl TypeError
       \<and> brokers (snd (unjellyCached u jl w)) = brokers w"
  using assms
  by (simp add: unjellyCached_def cachedLocallyAs_def new_instance_def split_beta Let_def)

theorem unjellyCached_unknown_luid_witness:
  "fst (unjellyCached (unjellier_on (Some 0)) [PStr ''cached'', PInt 7] world_received) = Inl TypeError
   \<and> incoming (brokers (snd (unjellyCached (unjellier_on (Some 0)) [PStr ''cached'', PInt 7] world_received)) 0) (PInt 1) = Some 3"
proof -
  have a: "unjellier_invoker (unjellier_on (Some 0)) = Some 0" by (simp add: unjellier_on_def)
  have b: "py_index [PStr ''cached'', PInt 7] 1 = Inr (PInt 7)" by (simp add: py_index_def)
  have c: "incoming (brokers world_received 0) (PInt 7) = None" by (simp add: run_simps)
  show ?thesis using unjellyCached_unknown_luid [OF a b c] received_facts(1) by simp
qed

theorem unjellyCached_unknown_luid_counterexample:
  "incoming (brokers world1 0) (PInt 5) = None
   \<and> fst (unjellyCached (unjellier_on (Some 0)) [PStr ''cached'', PInt 5] world1) = Inl TypeError
   \<and> fst (unjellyCached (unjellier_on (Some 0)) [PStr ''cached'', PInt 5] world1) \<noteq> Inl UnknownLocalId"
  by (simp add: run_simps)

text \<open>
  C4 (as amended). Reconstructing a cached-reference tuple whose LUID is registered
  returns a new instance, distinct from the registered one, that has the class of the
  registered instance and refers to the very same attribute dictionary; the registered
  instance, its dictionary and the connection's tables are unchanged.
\<close>

theorem unjellyCached_new_proxy:
  assumes "unjellier_invoker u = Some c" and "py_index jl 1 = Inr luid"
    and "incoming (brokers w c) luid = Some inst"
    and "inst < next_oid w" and "odict (objs w inst) < next_did w"
  shows "\<exists>cProxy w'. unjellyCached u jl w = (Inr cProxy, w')
       \<and> cProxy \<noteq> inst
       \<and> cProxy = next_oid w
       \<and> ocls (objs w' cProxy) = ocls (objs w inst)
       \<and> odict (objs w' cProxy) = odict (objs w inst)
       \<and> objs w' inst = objs w inst
       \<and> dicts w' (odict (objs w inst)) = dicts w (odict (objs w inst))
       \<and> brokers w' = brokers w"
  using assms
  by (auto simp add: unjellyCached_def cachedLocallyAs_def new_instance_def
      set_class_def set_dict_def split_beta Let_def)

theorem unjellyCached_new_proxy_witness:
  "fst (unjellyCached (unjellier_on (Some 0)) [PStr ''cached'', PInt 1] world_second) = Inr 6
   \<and> (6::nat) \<noteq> 3
   \<and> objs (snd (unjellyCached (unjellier_on (Some 0)) [PStr ''cached'', PInt 1] world_second)) 6
       = \<lparr>ocls = \<lparr>cbase = RemoteCache, cname = ''pkg.A''\<rparr>, odict = 5\<rparr>"
proof -
  have a: "unjellier_invoker (unjellier_on (Some 0)) = Some 0" by (simp add: unjellier_on_def)
  have b: "py_index [PStr ''cached'', PInt 1] 1 = Inr (PInt 1)" by (simp add: py_index_def)
  have c: "3 < next_oid world_second" "odict (objs world_second 3) < next_did world_second"
    by (simp_all add: second_facts)
  from unjellyCached_new_proxy [OF a b second_facts(1) c]
  obtain cProxy w' where r: "unjellyCached (unjellier_on (Some 0)) [PStr ''cached'', PInt 1] world_second = (Inr cProxy, w')"
    "cProxy = next_oid world_second" "ocls (objs w' cProxy) = ocls (objs world_second 3)"
    "odict (objs w' cProxy) = odict (objs world_second 3)"
    by blast
  have "objs w' 6 = \<lparr>ocls = \<lparr>cbase = RemoteCache, cname = ''pkg.A''\<rparr>, odict = 5\<rparr>"
    using r(2-4) by (cases "objs w' 6") (simp add: second_facts)
  then show ?thesis using r by (simp add: second_facts)
qed

theorem unjellyCached_instance_counterexample:
  "incoming (brokers world_received 0) (PInt 1) = Some 3
   \<and> fst (RemoteCache_unjellyFor sample_setInstanceState 3 (unjellier_on (Some 0))
          [PStr ''pkg.A'', PInt 1, PList [PStr ''dictionary'', PList [PStr ''x'', PInt 1]]]
          world_rc) = Inr 4
   \<and> fst (unjellyCached (unjellier_on (Some 0)) [PStr ''cached'', PInt 1] world_received) = Inr 5
   \<and> fst (unjellyCached (unjellier_on (Some 0)) [PStr ''cached'', PInt 1] world_received) \<noteq> Inr 3
   \<and> fst (unjellyCached (unjellier_on (Some 0)) [PStr ''cached'', PInt 1] world_received) \<noteq> Inr 4"
  by (simp add: run_simps)

section \<open>RemoteCache: the finalizer\<close>

text \<open>
  C8 (as amended). One run of the finalizer of a proxy whose \<^verbatim>\<open>broker\<close> attribute is
  the connection \<open>c\<close> and whose \<^verbatim>\<open>luid\<close> attribute is \<open>luid\<close> invokes the release path
  of \<open>c\<close> with \<open>luid\<close> exactly once, and changes no other connection, no instance and no
  dictionary.
\<close>

theorem RemoteCache_del_one_release:
  assumes "getattr w self ''broker'' = Inr (PBroker c)" and "getattr w self ''luid'' = Inr luid"
  shows "released (brokers (RemoteCache_del self w) c) = released (brokers w c) @ [luid]
       \<and> (\<forall>c'. c' \<noteq> c \<longrightarrow> brokers (RemoteCache_del self w) c' = brokers w c')
       \<and> objs (RemoteCache_del self w) = objs w \<and> dicts (RemoteCache_del self w) = dicts w"
  using assms
  by (simp add: RemoteCache_del_def upd_broker_def decCacheRef_def)

theorem RemoteCache_del_one_release_witness:
  "released (brokers world_received 0) = []
   \<and> released (brokers (RemoteCache_del 4 world_received) 0) = [PInt 1]"
  using RemoteCache_del_one_release [OF received_facts(6) received_facts(7)] received_facts(9)
  by simp

theorem RemoteCache_del_twice_counterexample:
  "released (brokers world_received 0) = []
   \<and> released (brokers (RemoteCache_del 4 (RemoteCache_del 4 world_received)) 0) = [PInt 1, PInt 1]"
  by (simp add: run_simps)

end
